theory Spec2Isabelle
  imports Main
begin

section \<open>Python values used by the client\<close>

text \<open>
  The values that \<^verbatim>\<open>response.json()\<close> can return, and therefore the values the client
  hands back to its callers. A Python \<^verbatim>\<open>dict\<close> with string keys is an association list
  read through \<open>map_of\<close>; a Python \<^verbatim>\<open>str\<close> is \<open>JStr\<close>. Numbers are kept as integers:
  no branch of the client looks inside a number.
\<close>

datatype jvalue =
    JNull
  | JBool bool
  | JNum int
  | JStr string
  | JArr "jvalue list"
  | JObj "(string \<times> jvalue) list"

datatype py_error = TypeError | KeyError

text \<open>\<^verbatim>\<open>s.lstrip(chars)\<close> and \<^verbatim>\<open>s.rstrip(chars)\<close>: every leading (trailing) character that
  occurs in \<open>chars\<close> is removed.\<close>

definition lstrip :: "string \<Rightarrow> string \<Rightarrow> string" where
  "lstrip chars s = dropWhile (\<lambda>c. c \<in> set chars) s"

definition rstrip :: "string \<Rightarrow> string \<Rightarrow> string" where
  "rstrip chars s = rev (dropWhile (\<lambda>c. c \<in> set chars) (rev s))"

text \<open>\<^verbatim>\<open>str(n)\<close> for an integer, as an f-string formats it.\<close>

definition digit_char :: "nat \<Rightarrow> char" where
  "digit_char d = ''0123456789'' ! (d mod 10)"

fun str_nat :: "nat \<Rightarrow> string" where
  "str_nat n = (if n < 10 then [digit_char n] else str_nat (n div 10) @ [digit_char n])"

declare str_nat.simps [simp del]

definition str_int :: "int \<Rightarrow> string" where
  "str_int i = (if i < 0 then CHR ''-'' # str_nat (nat (- i)) else str_nat (nat i))"

text \<open>\<^verbatim>\<open>needle in s\<close> for two strings: \<open>needle\<close> occurs in \<open>s\<close> as a contiguous run.\<close>

fun str_contains :: "string \<Rightarrow> string \<Rightarrow> bool" where
  "str_contains needle [] = (needle = [])"
| "str_contains needle (c # cs) =
     (take (length needle) (c # cs) = needle \<or> str_contains needle cs)"

text \<open>
  \<^verbatim>\<open>key in v\<close> for a string \<open>key\<close>: key membership for a dict, element membership for a
  list, substring test for a string; \<^verbatim>\<open>None\<close>, booleans and numbers are not containers
  and the test raises \<^verbatim>\<open>TypeError\<close>.
\<close>

fun py_in :: "string \<Rightarrow> jvalue \<Rightarrow> py_error + bool" where
  "py_in key (JObj kvs) = Inr (map_of kvs key \<noteq> None)"
| "py_in key (JArr xs) = Inr (JStr key \<in> set xs)"
| "py_in key (JStr s) = Inr (str_contains key s)"
| "py_in key JNull = Inl TypeError"
| "py_in key (JBool b) = Inl TypeError"
| "py_in key (JNum n) = Inl TypeError"

text \<open>\<^verbatim>\<open>v[key]\<close> for a string \<open>key\<close>: only a dict can be subscripted by a string.\<close>

fun py_getitem :: "jvalue \<Rightarrow> string \<Rightarrow> py_error + jvalue" where
  "py_getitem (JObj kvs) key = (case map_of kvs key of None \<Rightarrow> Inl KeyError | Some v \<Rightarrow> Inr v)"
| "py_getitem JNull key = Inl TypeError"
| "py_getitem (JBool b) key = Inl TypeError"
| "py_getitem (JNum n) key = Inl TypeError"
| "py_getitem (JStr s) key = Inl TypeError"
| "py_getitem (JArr xs) key = Inl TypeError"

section \<open>Responses and errors\<close>

text \<open>
  What the client reads of a \<^verbatim>\<open>requests.Response\<close>: the status code, the body bytes
  (\<^verbatim>\<open>content\<close>), the decoded body (\<^verbatim>\<open>text\<close>) and the outcome of \<^verbatim>\<open>json()\<close>, which is
  \<open>None\<close> when the call raises \<^verbatim>\<open>ValueError\<close>. The three views of the body are kept
  independent, as the library computes them.
\<close>

record response =
  status_code :: int
  content :: string
  text_attr :: string
  json_call :: "jvalue option"

text \<open>
  The error classes of \<^verbatim>\<open>schwabpy.exceptions\<close> that the client raises, with the three
  constructor arguments the client passes: message, status code and response (the last
  two are absent in the one-argument calls).
\<close>

datatype api_kind =
    APIError
  | BadRequestError
  | UnauthorizedError
  | ForbiddenError
  | NotFoundError
  | RateLimitError
  | ServerError

record api_error =
  kind :: api_kind
  message :: jvalue
  err_status_code :: "int option"
  err_response :: "response option"

datatype client_exc = Api api_error | Py py_error

text \<open>\<^verbatim>\<open>SchwabClient._handle_response\<close>.\<close>

definition handle_response :: "response \<Rightarrow> client_exc + jvalue" where
  "handle_response r =
    (if 200 \<le> status_code r \<and> status_code r < 300 then
       (if status_code r = 204 \<or> content r = [] then Inr (JObj [])
        else (case json_call r of
                Some v \<Rightarrow> Inr v
              | None \<Rightarrow> Inr (JStr (text_attr r))))
     else
       (let error_msg0 = JStr (''API error '' @ str_int (status_code r));
            error_msg =
              (case json_call r of
                 Some error_data \<Rightarrow>
                   (case py_in ''message'' error_data of
                      Inl e \<Rightarrow> Inl e
                    | Inr True \<Rightarrow> py_getitem error_data ''message''
                    | Inr False \<Rightarrow>
                        (case py_in ''error'' error_data of
                           Inl e \<Rightarrow> Inl e
                         | Inr True \<Rightarrow> py_getitem error_data ''error''
                         | Inr False \<Rightarrow> Inr error_msg0))
               | None \<Rightarrow> Inr (if text_attr r \<noteq> [] then JStr (text_attr r) else error_msg0))
        in case error_msg of
             Inl e \<Rightarrow> Inl (Py e)
           | Inr msg \<Rightarrow>
               (let raise = (\<lambda>k. Inl (Api \<lparr>kind = k, message = msg,
                                 err_status_code = Some (status_code r),
                                 err_response = Some r\<rparr>))
                in if status_code r = 400 then raise BadRequestError
                   else if status_code r = 401 then raise UnauthorizedError
                   else if status_code r = 403 then raise ForbiddenError
                   else if status_code r = 404 then raise NotFoundError
                   else if status_code r = 429 then raise RateLimitError
                   else if status_code r \<ge> 500 then raise ServerError
                   else raise APIError)))"

section \<open>The client\<close>

text \<open>
  The value \<^verbatim>\<open>urljoin(base, relative)\<close> of the standard library, kept as the pair of its
  arguments: no property below depends on how the two are joined.
\<close>

datatype url = Urljoin string string

text \<open>The keyword arguments \<^verbatim>\<open>_request\<close> passes to \<^verbatim>\<open>self._session.request\<close>.\<close>

record http_request =
  req_method :: string
  req_url :: url
  req_params :: "jvalue option"
  req_json :: "jvalue option"
  req_headers :: "string \<rightharpoonup> string"
  req_timeout :: int

text \<open>
  The exceptions of \<^verbatim>\<open>requests.exceptions\<close> that the transport can raise, each with the
  text \<^verbatim>\<open>str(e)\<close>. \<open>ConnectTimeout\<close> is a subclass of both \<open>ConnectionError\<close> and
  \<open>Timeout\<close>; \<open>RequestException\<close> stands for every other member of the hierarchy.
\<close>

datatype req_exc =
    Timeout string
  | ConnectTimeout string
  | ConnectionError string
  | RequestException string

fun isinstance_Timeout :: "req_exc \<Rightarrow> bool" where
  "isinstance_Timeout (Timeout s) = True"
| "isinstance_Timeout (ConnectTimeout s) = True"
| "isinstance_Timeout (ConnectionError s) = False"
| "isinstance_Timeout (RequestException s) = False"

fun isinstance_ConnectionError :: "req_exc \<Rightarrow> bool" where
  "isinstance_ConnectionError (Timeout s) = False"
| "isinstance_ConnectionError (ConnectTimeout s) = True"
| "isinstance_ConnectionError (ConnectionError s) = True"
| "isinstance_ConnectionError (RequestException s) = False"

fun exc_str :: "req_exc \<Rightarrow> string" where
  "exc_str (Timeout s) = s"
| "exc_str (ConnectTimeout s) = s"
| "exc_str (ConnectionError s) = s"
| "exc_str (RequestException s) = s"

text \<open>
  The \<^verbatim>\<open>headers\<close> entry of \<^verbatim>\<open>**kwargs\<close>: absent, \<^verbatim>\<open>None\<close>, or a dict. The other keyword
  arguments are handed to the transport untouched and are not modelled.
\<close>

datatype headers_kwarg = NoHeaders | HeadersNone | Headers "string \<rightharpoonup> string"

text \<open>What a call of the client does to its collaborators, in order. Logging is left out.\<close>

datatype effect = Call_get_access_token | Call_session_request http_request

fun is_token_call :: "effect \<Rightarrow> bool" where
  "is_token_call Call_get_access_token = True"
| "is_token_call (Call_session_request q) = False"

fun transport_calls :: "effect list \<Rightarrow> http_request list" where
  "transport_calls [] = []"
| "transport_calls (Call_get_access_token # es) = transport_calls es"
| "transport_calls (Call_session_request q # es) = q # transport_calls es"

definition token_calls :: "effect list \<Rightarrow> nat" where
  "token_calls es = length (filter is_token_call es)"

text \<open>
  The client with its two collaborators. \<open>auth_get_access_token n\<close> is the outcome of the
  \<open>n\<close>-th call of \<^verbatim>\<open>self.auth.get_access_token()\<close> (the token or the exception it raises;
  the OAuth manager is not part of these sources), \<open>session_request n q\<close> the outcome of
  the \<open>n\<close>-th call of \<^verbatim>\<open>self._session.request\<close> with arguments \<open>q\<close>, both counted from 0.
  \<open>trace\<close> records the calls made so far, oldest first.
\<close>

record 'e client =
  timeout :: int
  auth_get_access_token :: "nat \<Rightarrow> 'e + string"
  session_request :: "nat \<Rightarrow> http_request \<Rightarrow> req_exc + response"
  trace :: "effect list"

datatype 'e raised = FromAuth 'e | FromClient client_exc

definition BASE_URL :: string where
  "BASE_URL = ''https://api.schwabapi.com''"

text \<open>\<^verbatim>\<open>SchwabClient._request\<close>: the result, and the client with the calls it made recorded.\<close>

definition request ::
  "'e client \<Rightarrow> string \<Rightarrow> string \<Rightarrow> jvalue option \<Rightarrow> jvalue option \<Rightarrow> headers_kwarg
    \<Rightarrow> ('e raised + jvalue) \<times> 'e client" where
  "request c method endpoint params json kwargs =
    (let c1 = c\<lparr>trace := trace c @ [Call_get_access_token]\<rparr> in
     case auth_get_access_token c (token_calls (trace c)) of
       Inl e \<Rightarrow> (Inl (FromAuth e), c1)
     | Inr access_token \<Rightarrow>
        (let url = Urljoin BASE_URL (lstrip ''/'' endpoint);
             headers0 = [''Authorization'' \<mapsto> ''Bearer '' @ access_token]
         in case (case kwargs of
                    NoHeaders \<Rightarrow> Inr headers0
                  | HeadersNone \<Rightarrow> Inl TypeError
                  | Headers h \<Rightarrow> Inr (headers0 ++ h)) of
              Inl e \<Rightarrow> (Inl (FromClient (Py e)), c1)
            | Inr headers \<Rightarrow>
               (let q = \<lparr>req_method = method, req_url = url, req_params = params,
                          req_json = json, req_headers = headers,
                          req_timeout = timeout c\<rparr>;
                    c2 = c1\<lparr>trace := trace c1 @ [Call_session_request q]\<rparr>
                in case session_request c (length (transport_calls (trace c))) q of
                     Inr response \<Rightarrow>
                       (case handle_response response of
                          Inl x \<Rightarrow> (Inl (FromClient x), c2)
                        | Inr v \<Rightarrow> (Inr v, c2))
                   | Inl e \<Rightarrow>
                       (let raise = (\<lambda>msg. (Inl (FromClient (Api
                                      \<lparr>kind = APIError, message = JStr msg,
                                        err_status_code = None, err_response = None\<rparr>)), c2))
                        in if isinstance_Timeout e then
                             raise (''Request timeout after '' @ str_int (timeout c) @ '' seconds'')
                           else if isinstance_ConnectionError e then
                             raise (''Connection error: '' @ exc_str e)
                           else raise (''Request failed: '' @ exc_str e)))))"

text \<open>The four public verbs.\<close>

definition get :: "'e client \<Rightarrow> string \<Rightarrow> jvalue option \<Rightarrow> headers_kwarg
    \<Rightarrow> ('e raised + jvalue) \<times> 'e client" where
  "get c endpoint params kwargs = request c ''GET'' endpoint params None kwargs"

definition post :: "'e client \<Rightarrow> string \<Rightarrow> jvalue option \<Rightarrow> headers_kwarg
    \<Rightarrow> ('e raised + jvalue) \<times> 'e client" where
  "post c endpoint json kwargs = request c ''POST'' endpoint None json kwargs"

definition put :: "'e client \<Rightarrow> string \<Rightarrow> jvalue option \<Rightarrow> headers_kwarg
    \<Rightarrow> ('e raised + jvalue) \<times> 'e client" where
  "put c endpoint json kwargs = request c ''PUT'' endpoint None json kwargs"

definition delete :: "'e client \<Rightarrow> string \<Rightarrow> headers_kwarg
    \<Rightarrow> ('e raised + jvalue) \<times> 'e client" where
  "delete c endpoint kwargs = request c ''DELETE'' endpoint None None kwargs"

text \<open>
  The names an instance of \<^verbatim>\<open>SchwabClient\<close> answers to: the class attribute, the methods
  the class body defines, and the attributes \<^verbatim>\<open>__init__\<close> sets. Any other name that is not
  inherited from \<^verbatim>\<open>object\<close> raises \<^verbatim>\<open>AttributeError\<close>.
\<close>

definition SchwabClient_names :: "string list" where
  "SchwabClient_names =
     [''BASE_URL'', ''__init__'', ''authenticate'', ''authorize_from_callback'',
      ''authorize_from_code'', ''_request'', ''_handle_response'', ''get'', ''post'',
      ''put'', ''delete'', ''__repr__'',
      ''client_id'', ''client_secret'', ''redirect_uri'', ''timeout'', ''auth'',
      ''_session'', ''accounts'', ''market_data'', ''orders'']"

definition has_attribute :: "string \<Rightarrow> bool" where
  "has_attribute name = (name \<in> set SchwabClient_names)"

section \<open>Building URLs\<close>

text \<open>
  \<^verbatim>\<open>utils.build_url\<close>. \<open>params\<close> is \<open>None\<close> or a dict given as the list of its items in
  order, a value \<open>None\<close> standing for Python's \<^verbatim>\<open>None\<close>. The standard library's
  \<^verbatim>\<open>urlencode\<close> is a parameter.
\<close>

definition build_url ::
  "((string \<times> 'v) list \<Rightarrow> string) \<Rightarrow> string \<Rightarrow> string \<Rightarrow> (string \<times> 'v option) list option
    \<Rightarrow> string" where
  "build_url urlencode base_url endpoint params =
    (let url = rstrip ''/'' base_url @ ''/'' @ lstrip ''/'' endpoint in
     case params of
       None \<Rightarrow> url
     | Some ps \<Rightarrow>
         if ps = [] then url
         else (let filtered_params = [(k, v). (k, Some v) \<leftarrow> ps]
               in if filtered_params \<noteq> [] then url @ ''?'' @ urlencode filtered_params
                  else url))"

section \<open>The response classification as the specification words it\<close>

text \<open>The status table of the error taxonomy: one error kind per status code.\<close>

definition status_kind :: "int \<Rightarrow> api_kind" where
  "status_kind s =
     (if s = 400 then BadRequestError
      else if s = 401 then UnauthorizedError
      else if s = 403 then ForbiddenError
      else if s = 404 then NotFoundError
      else if s = 429 then RateLimitError
      else if s \<ge> 500 then ServerError
      else APIError)"

definition generic_message :: "int \<Rightarrow> jvalue" where
  "generic_message s = JStr (''API error '' @ str_int s)"

text \<open>A member of the parsed body, when the body parses to a JSON object that has it.\<close>

definition body_field :: "response \<Rightarrow> string \<Rightarrow> jvalue option" where
  "body_field r key =
     (case json_call r of Some (JObj kvs) \<Rightarrow> map_of kvs key | _ \<Rightarrow> None)"

text \<open>
  The message chain in the specification's words: the \<^verbatim>\<open>message\<close> field if present, else
  the \<^verbatim>\<open>error\<close> field, else the raw response text, else the generic string.
\<close>

definition spec_message :: "response \<Rightarrow> jvalue" where
  "spec_message r =
     (case body_field r ''message'' of
        Some m \<Rightarrow> m
      | None \<Rightarrow>
          (case body_field r ''error'' of
             Some e \<Rightarrow> e
           | None \<Rightarrow>
               if text_attr r \<noteq> [] then JStr (text_attr r)
               else generic_message (status_code r)))"

text \<open>
  The message chain the code implements: the raw text is consulted only when the body
  does not parse; a body that parses and has neither field gives the generic string.
\<close>

definition code_message :: "response \<Rightarrow> jvalue" where
  "code_message r =
     (case json_call r of
        None \<Rightarrow>
          if text_attr r \<noteq> [] then JStr (text_attr r)
          else generic_message (status_code r)
      | Some d \<Rightarrow>
          (case body_field r ''message'' of
             Some m \<Rightarrow> m
           | None \<Rightarrow>
               (case body_field r ''error'' of
                  Some e \<Rightarrow> e
                | None \<Rightarrow> generic_message (status_code r))))"

definition is_2xx :: "int \<Rightarrow> bool" where
  "is_2xx s = (200 \<le> s \<and> s < 300)"

text \<open>The body does not parse, or it parses to a JSON object.\<close>

definition object_or_unparsed :: "response \<Rightarrow> bool" where
  "object_or_unparsed r =
     (case json_call r of None \<Rightarrow> True | Some (JObj kvs) \<Rightarrow> True | Some _ \<Rightarrow> False)"

section \<open>Concrete inputs\<close>

text \<open>Responses, as the transport returns them.\<close>

definition resp_204 :: response where
  "resp_204 = \<lparr>status_code = 204, content = ''ignored'', text_attr = ''ignored'',
                json_call = Some (JStr ''ignored'')\<rparr>"

definition resp_ok_json :: response where
  "resp_ok_json = \<lparr>status_code = 200, content = ''{data: ok}'', text_attr = ''{data: ok}'',
                    json_call = Some (JObj [(''data'', JStr ''ok'')])\<rparr>"

definition resp_ok_text :: response where
  "resp_ok_text = \<lparr>status_code = 200, content = ''plain text'', text_attr = ''plain text'',
                    json_call = None\<rparr>"

definition resp_400_empty_object :: response where
  "resp_400_empty_object = \<lparr>status_code = 400, content = ''{}'', text_attr = ''{}'',
                             json_call = Some (JObj [])\<rparr>"

definition resp_401_error_field :: response where
  "resp_401_error_field = \<lparr>status_code = 401, content = ''{error: invalid_token}'',
                            text_attr = ''{error: invalid_token}'',
                            json_call = Some (JObj [(''error'', JStr ''invalid_token'')])\<rparr>"

definition resp_500_text :: response where
  "resp_500_text = \<lparr>status_code = 500, content = ''Internal Server Error'',
                     text_attr = ''Internal Server Error'', json_call = None\<rparr>"

text \<open>
  Clients used as concrete inputs: the token is always \<^verbatim>\<open>fake_token\<close>, the timeout is the
  default of 30 seconds, and the transport answers by call number.
\<close>

definition client_ok :: "string client" where
  "client_ok =
     \<lparr>timeout = 30,
      auth_get_access_token = (\<lambda>n. Inr ''fake_token''),
      session_request = (\<lambda>n q. Inr resp_ok_json),
      trace = []\<rparr>"

definition client_timeout_then_ok :: "string client" where
  "client_timeout_then_ok =
     \<lparr>timeout = 30,
      auth_get_access_token = (\<lambda>n. Inr ''fake_token''),
      session_request = (\<lambda>n q. if n = 0 then Inl (Timeout ''timeout'') else Inr resp_ok_json),
      trace = []\<rparr>"

definition client_500_then_ok :: "string client" where
  "client_500_then_ok =
     \<lparr>timeout = 30,
      auth_get_access_token = (\<lambda>n. Inr ''fake_token''),
      session_request = (\<lambda>n q. if n = 0 then Inr resp_500_text else Inr resp_ok_json),
      trace = []\<rparr>"

definition client_always_timeout :: "string client" where
  "client_always_timeout =
     \<lparr>timeout = 30,
      auth_get_access_token = (\<lambda>n. Inr ''fake_token''),
      session_request = (\<lambda>n q. Inl (Timeout ''timeout'')),
      trace = []\<rparr>"

definition client_connection_refused :: "string client" where
  "client_connection_refused =
     \<lparr>timeout = 30,
      auth_get_access_token = (\<lambda>n. Inr ''fake_token''),
      session_request = (\<lambda>n q. Inl (ConnectionError ''conn err'')),
      trace = []\<rparr>"


text \<open>The transport request of \<^verbatim>\<open>client.get("/test")\<close> on these clients.\<close>

definition get_test_request :: http_request where
  "get_test_request =
     \<lparr>req_method = ''GET'', req_url = Urljoin ''https://api.schwabapi.com'' ''test'',
      req_params = None, req_json = None,
      req_headers = [''Authorization'' \<mapsto> ''Bearer fake_token''], req_timeout = 30\<rparr>"

text \<open>The error \<^verbatim>\<open>APIError(msg)\<close>, raised with a message only.\<close>

definition api_error_message_only :: "string \<Rightarrow> 'e raised" where
  "api_error_message_only msg =
     FromClient (Api \<lparr>kind = APIError, message = JStr msg,
                       err_status_code = None, err_response = None\<rparr>)"

text \<open>The message \<^verbatim>\<open>_request\<close> gives a transport exception.\<close>

definition transport_message :: "int \<Rightarrow> req_exc \<Rightarrow> string" where
  "transport_message seconds e =
     (if isinstance_Timeout e then ''Request timeout after '' @ str_int seconds @ '' seconds''
      else if isinstance_ConnectionError e then ''Connection error: '' @ exc_str e
      else ''Request failed: '' @ exc_str e)"


text \<open>The parameters whose value is not \<^verbatim>\<open>None\<close>, in the order of the dict.\<close>

definition not_none_params :: "(string \<times> 'v option) list option \<Rightarrow> (string \<times> 'v) list" where
  "not_none_params params =
     (case params of
        None \<Rightarrow> []
      | Some ps \<Rightarrow> map (\<lambda>(k, v). (k, the v)) (filter (\<lambda>(k, v). v \<noteq> None) ps))"

text \<open>A stand-in for \<^verbatim>\<open>urlencode\<close> on concrete inputs: the keys, each followed by \<open>=\<close>.\<close>

definition keys_only :: "(string \<times> int) list \<Rightarrow> string" where
  "keys_only ps = concat (map (\<lambda>(k, v). k @ ''='') ps)"

section \<open>Properties of the response classification\<close>

lemma str_int_400: "str_int 400 = ''400''"
  by code_simp

text \<open>
  C6. A 2xx response with status 204 or an empty body gives the empty dict; any other 2xx
  response gives the parsed value when the body parses as JSON, and the raw text when it
  does not.
\<close>

theorem C6_success_classification:
  assumes "is_2xx (status_code r)"
  shows "(status_code r = 204 \<or> content r = [] \<longrightarrow> handle_response r = Inr (JObj []))
       \<and> (status_code r \<noteq> 204 \<and> content r \<noteq> [] \<and> json_call r = Some v
            \<longrightarrow> handle_response r = Inr v)
       \<and> (status_code r \<noteq> 204 \<and> content r \<noteq> [] \<and> json_call r = None
            \<longrightarrow> handle_response r = Inr (JStr (text_attr r)))"
  using assms by (simp add: handle_response_def is_2xx_def)

theorem C6_success_classification_witness:
  "handle_response resp_204 = Inr (JObj [])
   \<and> handle_response resp_ok_json = Inr (JObj [(''data'', JStr ''ok'')])
   \<and> handle_response resp_ok_text = Inr (JStr ''plain text'')"
proof -
  have a: "is_2xx (status_code resp_204)"
    and b: "is_2xx (status_code resp_ok_json)"
    and c: "is_2xx (status_code resp_ok_text)"
    by (simp_all add: is_2xx_def resp_204_def resp_ok_json_def resp_ok_text_def)
  have "handle_response resp_204 = Inr (JObj [])"
    using C6_success_classification [OF a] by (simp add: resp_204_def)
  moreover have "handle_response resp_ok_json = Inr (JObj [(''data'', JStr ''ok'')])"
    using C6_success_classification [OF b, of "JObj [(''data'', JStr ''ok'')]"]
    by (simp add: resp_ok_json_def)
  moreover have "handle_response resp_ok_text = Inr (JStr ''plain text'')"
    using C6_success_classification [OF c] by (simp add: resp_ok_text_def)
  ultimately show ?thesis by simp
qed

text \<open>
  C4, as stated, fails: a 400 response whose body is the JSON object \<^verbatim>\<open>{}\<close> has neither
  field and a non-empty raw text, so the stated chain gives the raw text, while the code
  raises the error with the generic string.
\<close>

theorem C4_message_chain_counterexample:
  "spec_message resp_400_empty_object = JStr ''{}''
   \<and> handle_response resp_400_empty_object =
       Inl (Api \<lparr>kind = BadRequestError, message = JStr ''API error 400'',
                  err_status_code = Some 400,
                  err_response = Some resp_400_empty_object\<rparr>)
   \<and> handle_response resp_400_empty_object \<noteq>
       Inl (Api \<lparr>kind = status_kind 400, message = spec_message resp_400_empty_object,
                  err_status_code = Some 400,
                  err_response = Some resp_400_empty_object\<rparr>)"
  by (simp add: handle_response_def spec_message_def body_field_def status_kind_def
      resp_400_empty_object_def str_int_400)

text \<open>
  C4, amended. For every non-2xx response whose body fails JSON parsing or parses to a
  JSON object, the raised error has the kind of the status table (400, 401, 403, 404,
  429, any status from 500 up, generic otherwise), carries the status code and the
  response, and its message is: when the body parses, its \<^verbatim>\<open>message\<close> member if present,
  else its \<^verbatim>\<open>error\<close> member if present, else the generic string; when the body does not
  parse, the raw text if it is not empty, else the generic string.
\<close>

theorem C4_error_classification:
  assumes "\<not> is_2xx (status_code r)" and "object_or_unparsed r"
  shows "handle_response r =
           Inl (Api \<lparr>kind = status_kind (status_code r), message = code_message r,
                      err_status_code = Some (status_code r), err_response = Some r\<rparr>)"
proof (cases "json_call r")
  case None
  with assms(1) show ?thesis
    by (simp add: handle_response_def is_2xx_def code_message_def status_kind_def
        generic_message_def)
next
  case (Some d)
  with assms(2) obtain kvs where d: "d = JObj kvs"
    by (cases d) (simp_all add: object_or_unparsed_def)
  show ?thesis
  proof (cases "map_of kvs ''message''")
    case m: (Some m)
    with assms(1) Some d show ?thesis
      by (simp add: handle_response_def is_2xx_def code_message_def status_kind_def
          body_field_def)
  next
    case m: None
    show ?thesis
    proof (cases "map_of kvs ''error''")
      case None
      with assms(1) Some d m show ?thesis
        by (simp add: handle_response_def is_2xx_def code_message_def status_kind_def
            body_field_def generic_message_def)
    next
      case (Some e)
      with assms(1) \<open>json_call r = Some d\<close> d m show ?thesis
        by (simp add: handle_response_def is_2xx_def code_message_def status_kind_def
            body_field_def)
    qed
  qed
qed

theorem C4_error_classification_witness:
  "handle_response resp_401_error_field =
     Inl (Api \<lparr>kind = UnauthorizedError, message = JStr ''invalid_token'',
                err_status_code = Some 401, err_response = Some resp_401_error_field\<rparr>)
   \<and> handle_response resp_500_text =
     Inl (Api \<lparr>kind = ServerError, message = JStr ''Internal Server Error'',
                err_status_code = Some 500, err_response = Some resp_500_text\<rparr>)"
proof -
  have a: "\<not> is_2xx (status_code resp_401_error_field)"
    and a': "object_or_unparsed resp_401_error_field"
    and b: "\<not> is_2xx (status_code resp_500_text)"
    and b': "object_or_unparsed resp_500_text"
    by (simp_all add: is_2xx_def object_or_unparsed_def resp_401_error_field_def
        resp_500_text_def)
  have "status_kind (status_code resp_401_error_field) = UnauthorizedError"
    and "code_message resp_401_error_field = JStr ''invalid_token''"
    and "status_code resp_401_error_field = 401"
    and "status_kind (status_code resp_500_text) = ServerError"
    and "code_message resp_500_text = JStr ''Internal Server Error''"
    and "status_code resp_500_text = 500"
    by (simp_all add: status_kind_def code_message_def body_field_def
        resp_401_error_field_def resp_500_text_def)
  with C4_error_classification [OF a a'] C4_error_classification [OF b b']
  show ?thesis by simp
qed

section \<open>Properties of a request\<close>

lemma str_int_30: "str_int 30 = ''30''"
  by code_simp

text \<open>
  Every request calls the token manager first, exactly once, and the transport at most
  once after it: there is no second attempt and no other step in between.
\<close>

lemma request_effects:
  "trace (snd (request c m ep p j kw)) = trace c @ [Call_get_access_token]
   \<or> (\<exists>q. trace (snd (request c m ep p j kw)) =
            trace c @ [Call_get_access_token, Call_session_request q])"
  by (auto simp: request_def Let_def split: sum.splits headers_kwarg.splits)

text \<open>
  C1. The code does not retry: a GET whose first transport attempt times out, or is
  answered with status 500, raises at once, after one transport call, although the
  second attempt would have succeeded.
\<close>

theorem C1_get_failure_not_retried:
  "fst (get client_timeout_then_ok ''/test'' None NoHeaders) =
     Inl (api_error_message_only ''Request timeout after 30 seconds'')
   \<and> transport_calls (trace (snd (get client_timeout_then_ok ''/test'' None NoHeaders))) =
       [get_test_request]
   \<and> fst (get client_500_then_ok ''/test'' None NoHeaders) =
       Inl (FromClient (Api \<lparr>kind = ServerError, message = JStr ''Internal Server Error'',
                               err_status_code = Some 500,
                               err_response = Some resp_500_text\<rparr>))
   \<and> transport_calls (trace (snd (get client_500_then_ok ''/test'' None NoHeaders))) =
       [get_test_request]"
  by (simp add: get_def request_def client_timeout_then_ok_def client_500_then_ok_def
      token_calls_def Let_def lstrip_def BASE_URL_def get_test_request_def
      api_error_message_only_def str_int_30 handle_response_def resp_500_text_def)

text \<open>
  C5. A GET whose transport always times out raises the generic error after one transport
  call; the message names the timeout in seconds, not a number of attempts.
\<close>

theorem C5_get_timeout_single_attempt:
  "fst (get client_always_timeout ''/test'' None NoHeaders) =
     Inl (api_error_message_only ''Request timeout after 30 seconds'')
   \<and> transport_calls (trace (snd (get client_always_timeout ''/test'' None NoHeaders))) =
       [get_test_request]"
  by (simp add: get_def request_def client_always_timeout_def token_calls_def Let_def
      lstrip_def BASE_URL_def get_test_request_def api_error_message_only_def str_int_30)

text \<open>
  C2. The client has no rate limiter: none of the names the limiter needs exists, and
  three requests in a row call the token manager and the transport alternately, with no
  admission step before any transport call.
\<close>

theorem C2_requests_without_admission:
  "\<not> has_attribute ''_check_rate_limit''
   \<and> \<not> has_attribute ''_rate_limit_per_minute''
   \<and> \<not> has_attribute ''_request_times''
   \<and> trace (snd (get (snd (get (snd (get client_ok ''/test'' None NoHeaders))
                                ''/test'' None NoHeaders))
                     ''/test'' None NoHeaders)) =
       [Call_get_access_token, Call_session_request get_test_request,
        Call_get_access_token, Call_session_request get_test_request,
        Call_get_access_token, Call_session_request get_test_request]"
  by (simp add: has_attribute_def SchwabClient_names_def get_def request_def client_ok_def
      token_calls_def Let_def lstrip_def BASE_URL_def get_test_request_def
      handle_response_def resp_ok_json_def)

text \<open>
  C3. The client has no close operation, and a request can fail without a transport call
  only through the token manager's exception or the \<^verbatim>\<open>TypeError\<close> of a \<^verbatim>\<open>headers=None\<close>
  argument: no state of the client makes a request fail with a request-level error
  before the transport is called.
\<close>

theorem C3_no_close_operation:
  "\<not> has_attribute ''close''
   \<and> (fst (request c m ep p j kw) = Inl (FromClient (Api a)) \<longrightarrow>
        (\<exists>q. trace (snd (request c m ep p j kw)) =
               trace c @ [Call_get_access_token, Call_session_request q]))"
  by (auto simp: has_attribute_def SchwabClient_names_def request_def Let_def
      split: sum.splits headers_kwarg.splits if_splits)

theorem C3_no_close_operation_witness:
  "fst (request client_connection_refused ''GET'' ''/test'' None None NoHeaders) =
     Inl (api_error_message_only ''Connection error: conn err'')
   \<and> (\<exists>q. trace (snd (request client_connection_refused ''GET'' ''/test'' None None NoHeaders)) =
            [Call_get_access_token, Call_session_request q])"
proof -
  have r: "fst (request client_connection_refused ''GET'' ''/test'' None None NoHeaders) =
             Inl (FromClient (Api \<lparr>kind = APIError,
                    message = JStr ''Connection error: conn err'',
                    err_status_code = None, err_response = None\<rparr>))"
    by (simp add: request_def client_connection_refused_def token_calls_def Let_def)
  have t: "trace client_connection_refused = []"
    by (simp add: client_connection_refused_def)
  from r C3_no_close_operation [of client_connection_refused "''GET''" "''/test''" None None
      NoHeaders "\<lparr>kind = APIError, message = JStr ''Connection error: conn err'',
                  err_status_code = None, err_response = None\<rparr>"]
  show ?thesis by (simp add: t api_error_message_only_def)
qed




text \<open>
  C8. When a request calls the transport and the transport raises an exception of the
  \<^verbatim>\<open>requests\<close> hierarchy on it (a timeout, a connection failure or any other), the
  request raises the generic \<^verbatim>\<open>APIError\<close>, with no status code and no response, whatever
  the method.
\<close>

theorem C8_transport_failure_is_generic:
  assumes "trace (snd (request c m ep p j kw)) =
             trace c @ [Call_get_access_token, Call_session_request q]"
    and "session_request c (length (transport_calls (trace c))) q = Inl e"
  shows "fst (request c m ep p j kw) =
           Inl (FromClient (Api \<lparr>kind = APIError,
                  message = JStr (transport_message (timeout c) e),
                  err_status_code = None, err_response = None\<rparr>))"
  using assms
  by (auto simp: request_def Let_def transport_message_def
      split: sum.splits headers_kwarg.splits if_splits)

theorem C8_transport_failure_is_generic_witness:
  "fst (post client_always_timeout ''/orders'' None NoHeaders) =
     Inl (api_error_message_only ''Request timeout after 30 seconds'')
   \<and> fst (delete client_connection_refused ''/orders/1'' NoHeaders) =
     Inl (api_error_message_only ''Connection error: conn err'')"
proof -
  let ?qa = "\<lparr>req_method = ''POST'', req_url = Urljoin BASE_URL ''orders'',
      req_params = None, req_json = None,
      req_headers = [''Authorization'' \<mapsto> ''Bearer fake_token''], req_timeout = 30\<rparr>"
  let ?qb = "\<lparr>req_method = ''DELETE'', req_url = Urljoin BASE_URL ''orders/1'',
      req_params = None, req_json = None,
      req_headers = [''Authorization'' \<mapsto> ''Bearer fake_token''], req_timeout = 30\<rparr>"
  have a: "trace (snd (request client_always_timeout ''POST'' ''/orders'' None None NoHeaders)) =
             trace client_always_timeout @ [Call_get_access_token, Call_session_request ?qa]"
    and a': "session_request client_always_timeout
               (length (transport_calls (trace client_always_timeout))) ?qa =
             Inl (Timeout ''timeout'')"
    and ma: "transport_message (timeout client_always_timeout) (Timeout ''timeout'') =
               ''Request timeout after 30 seconds''"
    by (simp_all add: request_def Let_def token_calls_def lstrip_def
        client_always_timeout_def transport_message_def str_int_30)
  have b: "trace (snd (request client_connection_refused ''DELETE'' ''/orders/1'' None None
                    NoHeaders)) =
             trace client_connection_refused @ [Call_get_access_token, Call_session_request ?qb]"
    and b': "session_request client_connection_refused
               (length (transport_calls (trace client_connection_refused))) ?qb =
             Inl (ConnectionError ''conn err'')"
    and mb: "transport_message (timeout client_connection_refused)
               (ConnectionError ''conn err'') = ''Connection error: conn err''"
    by (simp_all add: request_def Let_def token_calls_def lstrip_def
        client_connection_refused_def transport_message_def)
  from C8_transport_failure_is_generic [OF a a'] C8_transport_failure_is_generic [OF b b']
  show ?thesis
    by (simp add: post_def delete_def api_error_message_only_def ma mb)
qed



section \<open>Properties of URL building\<close>

lemma rstrip_no_trailing: "rstrip cs s = x @ [c] \<Longrightarrow> c \<notin> set cs"
proof -
  assume "rstrip cs s = x @ [c]"
  then have "rev (rstrip cs s) = c # rev x"
    by simp
  then have "dropWhile (\<lambda>c. c \<in> set cs) (rev s) = c # rev x"
    by (simp add: rstrip_def)
  then show ?thesis
    by (metis hd_dropWhile list.sel(1) list.distinct(1))
qed

lemma lstrip_no_leading: "lstrip cs s = c # x \<Longrightarrow> c \<notin> set cs"
  unfolding lstrip_def by (metis hd_dropWhile list.sel(1) list.distinct(1))

lemma set_rstrip: "set (rstrip cs s) \<subseteq> set s"
  unfolding rstrip_def by (metis set_rev set_dropWhileD subsetI)

lemma set_lstrip: "set (lstrip cs s) \<subseteq> set s"
  unfolding lstrip_def by (meson set_dropWhileD subsetI)

lemma filtered_params_eq:
  "[(k, v). (k, Some v) \<leftarrow> ps] = not_none_params (Some ps)"
  by (induction ps) (auto simp: not_none_params_def split: option.splits)

lemma build_url_eq:
  "build_url urlencode b e params =
     rstrip ''/'' b @ ''/'' @ lstrip ''/'' e @
       (if not_none_params params = [] then []
        else ''?'' @ urlencode (not_none_params params))"
proof (cases params)
  case None
  then show ?thesis by (simp add: build_url_def not_none_params_def)
next
  case (Some ps)
  have "not_none_params (Some []) = ([] :: (string \<times> 'a) list)"
    by (simp add: not_none_params_def)
  with Some show ?thesis
    by (simp add: build_url_def Let_def filtered_params_eq)
qed

text \<open>
  C10, as stated, fails: with no parameters the URL is the joined base and endpoint, and
  an endpoint that holds a question mark gives a URL that holds one.
\<close>

theorem C10_question_mark_counterexample:
  "build_url keys_only ''https://h'' ''x?y'' None = ''https://h/x?y''
   \<and> CHR ''?'' \<in> set (build_url keys_only ''https://h'' ''x?y'' None)"
  by (simp add: build_url_def rstrip_def lstrip_def)

text \<open>
  C10, amended. The URL is the base without its trailing slashes, one slash, the endpoint
  without its leading slashes, and then, when some parameter has a value other than
  \<^verbatim>\<open>None\<close>, a question mark and the encoding of exactly the parameters whose value is not
  \<^verbatim>\<open>None\<close>. When \<open>params\<close> is absent, empty or holds only \<^verbatim>\<open>None\<close> values nothing is
  appended, so the URL has no question mark unless the base or the endpoint has one.
\<close>

theorem C10_build_url:
  "build_url urlencode b e params =
     rstrip ''/'' b @ ''/'' @ lstrip ''/'' e @
       (if not_none_params params = [] then []
        else ''?'' @ urlencode (not_none_params params))
   \<and> (\<forall>x. rstrip ''/'' b \<noteq> x @ ''/'')
   \<and> (\<forall>x. lstrip ''/'' e \<noteq> ''/'' @ x)
   \<and> (not_none_params params = [] \<longrightarrow>
        build_url urlencode b e params = rstrip ''/'' b @ ''/'' @ lstrip ''/'' e)
   \<and> (not_none_params params = [] \<and> CHR ''?'' \<notin> set b \<and> CHR ''?'' \<notin> set e \<longrightarrow>
        CHR ''?'' \<notin> set (build_url urlencode b e params))"
proof -
  have 1: "\<forall>x. rstrip ''/'' b \<noteq> x @ ''/''"
    using rstrip_no_trailing [of "''/''" b _ "CHR ''/''"] by auto
  have 2: "\<forall>x. lstrip ''/'' e \<noteq> ''/'' @ x"
    using lstrip_no_leading [of "''/''" e "CHR ''/''"] by auto
  have 3: "CHR ''?'' \<notin> set b \<Longrightarrow> CHR ''?'' \<notin> set (rstrip ''/'' b)"
    using set_rstrip [of "''/''" b] by blast
  have 4: "CHR ''?'' \<notin> set e \<Longrightarrow> CHR ''?'' \<notin> set (lstrip ''/'' e)"
    using set_lstrip [of "''/''" e] by blast
  show ?thesis
    using 1 2 3 4 by (simp add: build_url_eq)
qed

theorem C10_build_url_witness:
  "build_url keys_only ''https://h//'' ''//quotes''
     (Some [(''symbol'', Some 1), (''fields'', None), (''indicative'', Some 0)]) =
     ''https://h/quotes?symbol=indicative=''
   \<and> build_url keys_only ''https://h//'' ''//quotes'' (Some [(''fields'', None)]) =
     ''https://h/quotes''
   \<and> CHR ''?'' \<notin> set (build_url keys_only ''https://h//'' ''//quotes'' (Some [(''fields'', None)]))"
proof -
  have n: "not_none_params (Some [(''fields'', None :: int option)]) = []"
    by (simp add: not_none_params_def)
  have s: "CHR ''?'' \<notin> set ''https://h//''" "CHR ''?'' \<notin> set ''//quotes''"
    by simp_all
  have r: "rstrip ''/'' ''https://h//'' = ''https://h''" "lstrip ''/'' ''//quotes'' = ''quotes''"
    by (simp_all add: rstrip_def lstrip_def)
  have k: "not_none_params (Some [(''symbol'', Some 1), (''fields'', None),
             (''indicative'', Some (0::int))]) = [(''symbol'', 1), (''indicative'', 0)]"
    by (simp add: not_none_params_def)
  from C10_build_url [of keys_only "''https://h//''" "''//quotes''"
      "Some [(''symbol'', Some 1), (''fields'', None), (''indicative'', Some 0)]"]
  have "build_url keys_only ''https://h//'' ''//quotes''
     (Some [(''symbol'', Some 1), (''fields'', None), (''indicative'', Some 0)]) =
     ''https://h/quotes?symbol=indicative=''"
    by (simp add: r k keys_only_def)
  moreover from n s C10_build_url [of keys_only "''https://h//''" "''//quotes''"
      "Some [(''fields'', None)]"]
  have "build_url keys_only ''https://h//'' ''//quotes'' (Some [(''fields'', None)]) =
     ''https://h/quotes''
   \<and> CHR ''?'' \<notin> set (build_url keys_only ''https://h//'' ''//quotes'' (Some [(''fields'', None)]))"
    by (simp add: r)
  ultimately show ?thesis by simp
qed

end
